theory Spec2Isabelle
  imports Main "HOL-Library.Word"
begin

section \<open>The ComplianceEngine contract\<close>

text \<open>
  A shallow embedding of \<^verbatim>\<open>smart_contracts/compliance_engine/contract.py\<close>. The contract
  keeps all of its data in boxes: a map from byte-string keys to byte-string values.
  A key is a namespace prefix (\<^verbatim>\<open>role:\<close>, \<^verbatim>\<open>batch:\<close>, \<^verbatim>\<open>asset:\<close>, \<^verbatim>\<open>vendor:\<close>)
  followed by an account or a batch identifier.
\<close>

subsection \<open>Bytes and unsigned 64-bit integers\<close>

text \<open>\<^verbatim>\<open>Bytes\<close> are lists of 8-bit characters, \<^verbatim>\<open>UInt64\<close> is a 64-bit word.\<close>

type_synonym bytes = string
type_synonym uint64 = "64 word"

text \<open>\<^verbatim>\<open>op.itob\<close>: the eight bytes of a \<^verbatim>\<open>UInt64\<close>, most significant first.\<close>

definition itob :: "uint64 \<Rightarrow> bytes" where
  "itob w = map (\<lambda>i. char_of (unat w div 256 ^ i)) [7, 6, 5, 4, 3, 2, 1, 0]"

text \<open>\<^verbatim>\<open>op.btoi\<close>: a big-endian byte string of at most eight bytes read as a
  \<^verbatim>\<open>UInt64\<close>; the opcode fails on a longer input.\<close>

definition btoi :: "bytes \<Rightarrow> uint64 option" where
  "btoi bs = (if length bs > 8 then None
              else Some (of_nat (foldl (\<lambda>a c. a * 256 + of_char c) 0 bs)))"

text \<open>\<^verbatim>\<open>.hex()\<close>: two lower-case hexadecimal digits per byte.\<close>

definition hex_digit :: "nat \<Rightarrow> char" where
  "hex_digit n = ''0123456789abcdef'' ! n"

definition hex :: "bytes \<Rightarrow> string" where
  "hex bs = concat (map (\<lambda>c. [hex_digit (of_char c div 16), hex_digit (of_char c mod 16)]) bs)"

subsection \<open>Ledger state, transactions, failures\<close>

text \<open>
  The part of the ledger the contract touches: its boxes and the events it has logged
  (\<^verbatim>\<open>arc4.emit\<close>, an event name and its argument).
\<close>

record state =
  boxes :: "bytes \<rightharpoonup> bytes"
  logs :: "(string \<times> string) list"

text \<open>
  What a method reads from its transaction: \<^verbatim>\<open>Txn.sender\<close>, and the outcome of the
  inner asset-configuration transaction that \<^verbatim>\<open>certify_batch\<close> submits: \<open>None\<close>
  when the ledger rejects it, otherwise the identifier of the created asset.
  \<^verbatim>\<open>Global.creator_address\<close> is fixed at deployment and is a parameter \<open>creator\<close> of
  the methods that read it.
\<close>

record txn =
  sender :: bytes
  asset_created :: "uint64 option"

text \<open>
  A failed assertion, opcode or inner transaction aborts the call. The failures are named
  after the specification's taxonomy; each definition below says which assertion of the
  source raises which one. \<open>OpcodeFailure\<close> is \<^verbatim>\<open>op.btoi\<close> on more than eight bytes.
\<close>

datatype error =
    Unauthorized
  | InvalidArgument
  | AlreadyExists
  | NotFound
  | InvalidTransition
  | MintingFailure
  | OpcodeFailure

text \<open>
  The outcome of running a method body: on success the returned value and the state
  after all writes; on failure the error and the state as the body left it at the point
  where it aborted.
\<close>

type_synonym 'a outcome = "(error \<times> state) + ('a \<times> state)"

text \<open>\<^verbatim>\<open>op.Box.get\<close> returns the value and whether the box exists; \<^verbatim>\<open>op.Box.put\<close>
  stores a value under a key. Ledger limits on box names and sizes are not modelled.\<close>

definition box_get :: "state \<Rightarrow> bytes \<Rightarrow> bytes option" where
  "box_get s k = boxes s k"

definition box_put :: "bytes \<Rightarrow> bytes \<Rightarrow> state \<Rightarrow> state" where
  "box_put k v s = s\<lparr>boxes := (boxes s)(k \<mapsto> v)\<rparr>"

definition emit :: "string \<Rightarrow> string \<Rightarrow> state \<Rightarrow> state" where
  "emit name log_event s = s\<lparr>logs := logs s @ [(name, log_event)]\<rparr>"

subsection \<open>The original methods\<close>

text \<open>\<^verbatim>\<open>create_batch\<close>, \<^verbatim>\<open>approve_batch\<close> and \<^verbatim>\<open>get_batch_status\<close> take a
  \<^verbatim>\<open>UInt64\<close> batch identifier and return a constant.\<close>

definition create_batch :: "uint64 \<Rightarrow> state \<Rightarrow> uint64 outcome" where
  "create_batch batch_id s = Inr (0, s)"

definition approve_batch :: "uint64 \<Rightarrow> state \<Rightarrow> uint64 outcome" where
  "approve_batch batch_id s = Inr (1, s)"

definition get_batch_status :: "uint64 \<Rightarrow> state \<Rightarrow> uint64 outcome" where
  "get_batch_status batch_id s = Inr (1, s)"

subsection \<open>The batch lifecycle methods\<close>

text \<open>
  \<^verbatim>\<open>assign_role\<close>. "Only admin can assign roles" is \<open>Unauthorized\<close>, "Invalid role"
  is \<open>InvalidArgument\<close>.
\<close>

definition assign_role :: "bytes \<Rightarrow> txn \<Rightarrow> bytes \<Rightarrow> uint64 \<Rightarrow> state \<Rightarrow> uint64 outcome" where
  "assign_role creator tx account role s =
     (if sender tx \<noteq> creator then Inl (Unauthorized, s)
      else if \<not> (role = 1 \<or> role = 2) then Inl (InvalidArgument, s)
      else
        let key = ''role:'' @ account;
            s1 = box_put key (itob role) s;
            log_event = ''assign_role|'' @ hex account @ ''|'' @ hex (sender tx);
            s2 = emit ''assign_role'' log_event s1
        in Inr (role, s2))"

text \<open>
  \<^verbatim>\<open>create_batch_v2\<close>. "Sender has no assigned role" and "Only ROLE_VENDOR can create
  batches" are \<open>Unauthorized\<close>, "Batch already exists" is \<open>AlreadyExists\<close>.
\<close>

definition create_batch_v2 :: "txn \<Rightarrow> bytes \<Rightarrow> state \<Rightarrow> uint64 outcome" where
  "create_batch_v2 tx batch_id s =
     (let role_key = ''role:'' @ sender tx in
      case box_get s role_key of
        None \<Rightarrow> Inl (Unauthorized, s)
      | Some role_val \<Rightarrow>
          (case btoi role_val of
             None \<Rightarrow> Inl (OpcodeFailure, s)
           | Some r \<Rightarrow>
               if r \<noteq> 1 then Inl (Unauthorized, s)
               else
                 let state_key = ''batch:'' @ batch_id in
                 (case box_get s state_key of
                    Some _ \<Rightarrow> Inl (AlreadyExists, s)
                  | None \<Rightarrow>
                      let s1 = box_put state_key (itob 0) s;
                          vendor_key = ''vendor:'' @ sender tx;
                          new_val = (case box_get s1 vendor_key of
                                       Some existing \<Rightarrow> existing @ ''|'' @ batch_id
                                     | None \<Rightarrow> batch_id);
                          s2 = box_put vendor_key new_val s1;
                          log_event = ''create_batch|'' @ hex batch_id @ ''|'' @ hex (sender tx);
                          s3 = emit ''create_batch'' log_event s2
                      in Inr (0, s3))))"

text \<open>
  \<^verbatim>\<open>approve_batch_v2\<close>. "Sender has no assigned role" and "Only ROLE_INSPECTOR can
  approve batches" are \<open>Unauthorized\<close>, "Batch does not exist" is \<open>NotFound\<close>, "Batch
  must be in CREATED state" is \<open>InvalidTransition\<close>.
\<close>

definition approve_batch_v2 :: "txn \<Rightarrow> bytes \<Rightarrow> state \<Rightarrow> uint64 outcome" where
  "approve_batch_v2 tx batch_id s =
     (let role_key = ''role:'' @ sender tx in
      case box_get s role_key of
        None \<Rightarrow> Inl (Unauthorized, s)
      | Some role_val \<Rightarrow>
          (case btoi role_val of
             None \<Rightarrow> Inl (OpcodeFailure, s)
           | Some r \<Rightarrow>
               if r \<noteq> 2 then Inl (Unauthorized, s)
               else
                 let state_key = ''batch:'' @ batch_id in
                 (case box_get s state_key of
                    None \<Rightarrow> Inl (NotFound, s)
                  | Some state_val \<Rightarrow>
                      (case btoi state_val of
                         None \<Rightarrow> Inl (OpcodeFailure, s)
                       | Some st \<Rightarrow>
                           if st \<noteq> 0 then Inl (InvalidTransition, s)
                           else
                             let s1 = box_put state_key (itob 1) s;
                                 log_event = ''approve_batch|'' @ hex batch_id @ ''|''
                                               @ hex (sender tx);
                                 s2 = emit ''approve_batch'' log_event s1
                             in Inr (1, s2)))))"

text \<open>
  \<^verbatim>\<open>certify_batch\<close>. The role box is read only when the sender is not the creator.
  "Sender has no assigned role" and "Only admin or ROLE_INSPECTOR can certify" are
  \<open>Unauthorized\<close>, "Batch does not exist" is \<open>NotFound\<close>, "Batch must be in APPROVED
  state" is \<open>InvalidTransition\<close>, a rejected inner transaction is \<open>MintingFailure\<close>. The
  state box is written before the inner transaction is submitted.
\<close>

definition certify_batch :: "bytes \<Rightarrow> txn \<Rightarrow> bytes \<Rightarrow> state \<Rightarrow> uint64 outcome" where
  "certify_batch creator tx batch_id s =
     (let is_admin = (sender tx = creator);
          role_failure =
            (if \<not> is_admin then
               (let role_key = ''role:'' @ sender tx in
                case box_get s role_key of
                  None \<Rightarrow> Some Unauthorized
                | Some role_val \<Rightarrow>
                    (case btoi role_val of
                       None \<Rightarrow> Some OpcodeFailure
                     | Some r \<Rightarrow> if r \<noteq> 2 then Some Unauthorized else None))
             else None)
      in case role_failure of
        Some e \<Rightarrow> Inl (e, s)
      | None \<Rightarrow>
          let state_key = ''batch:'' @ batch_id in
          (case box_get s state_key of
             None \<Rightarrow> Inl (NotFound, s)
           | Some state_val \<Rightarrow>
               (case btoi state_val of
                  None \<Rightarrow> Inl (OpcodeFailure, s)
                | Some st \<Rightarrow>
                    if st \<noteq> 1 then Inl (InvalidTransition, s)
                    else
                      let s1 = box_put state_key (itob 2) s in
                      (case asset_created tx of
                         None \<Rightarrow> Inl (MintingFailure, s1)
                       | Some asa_id \<Rightarrow>
                           let asset_key = ''asset:'' @ batch_id;
                               s2 = box_put asset_key (itob asa_id) s1;
                               log_event = ''certify_batch|'' @ hex batch_id @ ''|''
                                             @ hex (sender tx);
                               s3 = emit ''certify_batch'' log_event s2
                           in Inr (2, s3)))))"

subsection \<open>The read-only methods\<close>

definition get_batch_status_v2 :: "bytes \<Rightarrow> state \<Rightarrow> uint64 outcome" where
  "get_batch_status_v2 batch_id s =
     (let state_key = ''batch:'' @ batch_id in
      case box_get s state_key of
        Some state_val \<Rightarrow>
          (case btoi state_val of None \<Rightarrow> Inl (OpcodeFailure, s) | Some st \<Rightarrow> Inr (st, s))
      | None \<Rightarrow> Inr (99, s))"

definition get_batch_asset :: "bytes \<Rightarrow> state \<Rightarrow> uint64 outcome" where
  "get_batch_asset batch_id s =
     (let asset_key = ''asset:'' @ batch_id in
      case box_get s asset_key of
        Some asset_val \<Rightarrow>
          (case btoi asset_val of None \<Rightarrow> Inl (OpcodeFailure, s) | Some a \<Rightarrow> Inr (a, s))
      | None \<Rightarrow> Inr (0, s))"

text \<open>\<^verbatim>\<open>get_vendor_batches\<close> returns the stored bytes as a string (the decoding is
  the identity on the bytes).\<close>

definition get_vendor_batches :: "bytes \<Rightarrow> state \<Rightarrow> bytes outcome" where
  "get_vendor_batches vendor s =
     (let vendor_key = ''vendor:'' @ vendor in
      case box_get s vendor_key of
        Some vendor_val \<Rightarrow> Inr (vendor_val, s)
      | None \<Rightarrow> Inr ('''', s))"

definition get_role :: "bytes \<Rightarrow> bytes \<Rightarrow> state \<Rightarrow> uint64 outcome" where
  "get_role creator account s =
     (if account = creator then Inr (0, s)
      else
        let role_key = ''role:'' @ account in
        case box_get s role_key of
          Some role_val \<Rightarrow>
            (case btoi role_val of None \<Rightarrow> Inl (OpcodeFailure, s) | Some r \<Rightarrow> Inr (r, s))
        | None \<Rightarrow> Inr (99, s))"

subsection \<open>Application calls and runs\<close>

text \<open>The ABI methods of the contract with their arguments.\<close>

datatype call =
    CreateBatch uint64
  | ApproveBatch uint64
  | GetBatchStatus uint64
  | AssignRole bytes uint64
  | CreateBatchV2 bytes
  | ApproveBatchV2 bytes
  | CertifyBatch bytes
  | GetBatchStatusV2 bytes
  | GetBatchAsset bytes
  | GetVendorBatches bytes
  | GetRole bytes

datatype retval = U64 uint64 | Str bytes

definition ret_u64 :: "uint64 outcome \<Rightarrow> retval outcome" where
  "ret_u64 r = map_sum id (map_prod U64 id) r"

definition ret_str :: "bytes outcome \<Rightarrow> retval outcome" where
  "ret_str r = map_sum id (map_prod Str id) r"

fun method_body :: "bytes \<Rightarrow> txn \<Rightarrow> call \<Rightarrow> state \<Rightarrow> retval outcome" where
  "method_body creator tx (CreateBatch n) s = ret_u64 (create_batch n s)"
| "method_body creator tx (ApproveBatch n) s = ret_u64 (approve_batch n s)"
| "method_body creator tx (GetBatchStatus n) s = ret_u64 (get_batch_status n s)"
| "method_body creator tx (AssignRole a r) s = ret_u64 (assign_role creator tx a r s)"
| "method_body creator tx (CreateBatchV2 b) s = ret_u64 (create_batch_v2 tx b s)"
| "method_body creator tx (ApproveBatchV2 b) s = ret_u64 (approve_batch_v2 tx b s)"
| "method_body creator tx (CertifyBatch b) s = ret_u64 (certify_batch creator tx b s)"
| "method_body creator tx (GetBatchStatusV2 b) s = ret_u64 (get_batch_status_v2 b s)"
| "method_body creator tx (GetBatchAsset b) s = ret_u64 (get_batch_asset b s)"
| "method_body creator tx (GetVendorBatches v) s = ret_str (get_vendor_batches v s)"
| "method_body creator tx (GetRole a) s = ret_u64 (get_role creator a s)"

text \<open>
  One application call as the ledger evaluates it: the method body runs on the current
  state; when it succeeds its writes and events are committed, when it aborts the call is
  rejected as a whole and the ledger keeps the state it had before the call.
\<close>

definition app_call :: "bytes \<Rightarrow> txn \<Rightarrow> call \<Rightarrow> state \<Rightarrow> (error + retval) \<times> state" where
  "app_call creator tx c s =
     (case method_body creator tx c s of
        Inl (e, s_abort) \<Rightarrow> (Inl e, s)
      | Inr (r, s') \<Rightarrow> (Inr r, s'))"

text \<open>A freshly deployed application has no boxes and has logged nothing.\<close>

definition init_state :: state where
  "init_state = \<lparr>boxes = Map.empty, logs = []\<rparr>"

text \<open>The state after a sequence of application calls.\<close>

fun run :: "bytes \<Rightarrow> (txn \<times> call) list \<Rightarrow> state \<Rightarrow> state" where
  "run creator [] s = s"
| "run creator ((tx, c) # rest) s = run creator rest (snd (app_call creator tx c s))"

text \<open>The batch identifiers of the successful \<^verbatim>\<open>create_batch_v2\<close> calls of a run, in
  call order, each with the sender that made the call.\<close>

fun created :: "bytes \<Rightarrow> (txn \<times> call) list \<Rightarrow> state \<Rightarrow> (bytes \<times> bytes) list" where
  "created creator [] s = []"
| "created creator ((tx, c) # rest) s =
     (case (c, fst (app_call creator tx c s)) of
        (CreateBatchV2 b, Inr _) \<Rightarrow> [(sender tx, b)]
      | _ \<Rightarrow> [])
     @ created creator rest (snd (app_call creator tx c s))"

definition created_by :: "bytes \<Rightarrow> bytes \<Rightarrow> (txn \<times> call) list \<Rightarrow> state \<Rightarrow> bytes list" where
  "created_by creator v tr s = map snd (filter (\<lambda>p. fst p = v) (created creator tr s))"

text \<open>A sequence of identifiers joined with the delimiter \<^verbatim>\<open>|\<close>.\<close>

fun join_pipe :: "bytes list \<Rightarrow> bytes" where
  "join_pipe [] = ''''"
| "join_pipe [x] = x"
| "join_pipe (x # y # ys) = x @ ''|'' @ join_pipe (y # ys)"


subsection \<open>Well-formed stores\<close>

text \<open>
  What the contract's own writes keep true of the boxes: a role box holds the encoding of
  1 or 2, a batch box the encoding of 0, 1 or 2, and an asset box holds eight bytes and
  exists only for a batch whose state is 2.
\<close>

definition store_ok :: "state \<Rightarrow> bool" where
  "store_ok s \<longleftrightarrow>
     (\<forall>a v. boxes s (''role:'' @ a) = Some v \<longrightarrow> v = itob 1 \<or> v = itob 2) \<and>
     (\<forall>b v. boxes s (''batch:'' @ b) = Some v \<longrightarrow> v = itob 0 \<or> v = itob 1 \<or> v = itob 2) \<and>
     (\<forall>b v. boxes s (''asset:'' @ b) = Some v \<longrightarrow>
        length v = 8 \<and> boxes s (''batch:'' @ b) = Some (itob 2))"

section \<open>Properties\<close>

subsection \<open>Encoding of the constants\<close>

lemma btoi_itob_consts:
  "btoi (itob 0) = Some 0" "btoi (itob 1) = Some 1" "btoi (itob 2) = Some 2"
  by (simp_all add: btoi_def itob_def)

lemma itob_consts_distinct:
  "itob 0 \<noteq> itob 1" "itob 1 \<noteq> itob 0" "itob 0 \<noteq> itob 2" "itob 2 \<noteq> itob 0"
  "itob 1 \<noteq> itob 2" "itob 2 \<noteq> itob 1"
  by (simp_all add: itob_def)

lemma length_itob: "length (itob w) = 8"
  by (simp add: itob_def)

lemma btoi_length: "length v = 8 \<Longrightarrow> \<exists>w. btoi v = Some w"
  by (simp add: btoi_def)

subsection \<open>What a successful method call has checked and written\<close>

lemma assign_role_Inr:
  assumes "assign_role creator tx a r s = Inr (x, s')"
  shows "sender tx = creator" and "r = 1 \<or> r = 2" and "x = r"
    and "boxes s' = (boxes s)(''role:'' @ a \<mapsto> itob r)"
    and "logs s' = logs s @ [(''assign_role'', ''assign_role|'' @ hex a @ ''|'' @ hex (sender tx))]"
  using assms
  by (auto simp: assign_role_def box_put_def emit_def Let_def split: if_splits)

lemma create_batch_v2_Inr:
  assumes "create_batch_v2 tx b s = Inr (x, s')"
  shows "\<exists>rv. boxes s (''role:'' @ sender tx) = Some rv \<and> btoi rv = Some 1"
    and "boxes s (''batch:'' @ b) = None" and "x = 0"
    and "boxes s' = (boxes s)(''batch:'' @ b \<mapsto> itob 0,
           ''vendor:'' @ sender tx \<mapsto>
             (case boxes s (''vendor:'' @ sender tx) of
                Some existing \<Rightarrow> existing @ ''|'' @ b | None \<Rightarrow> b))"
    and "logs s' = logs s @ [(''create_batch'', ''create_batch|'' @ hex b @ ''|'' @ hex (sender tx))]"
  using assms
  by (auto simp: create_batch_v2_def box_put_def box_get_def emit_def Let_def
      split: if_splits option.splits)

lemma approve_batch_v2_Inr:
  assumes "approve_batch_v2 tx b s = Inr (x, s')"
  shows "\<exists>rv. boxes s (''role:'' @ sender tx) = Some rv \<and> btoi rv = Some 2"
    and "\<exists>v. boxes s (''batch:'' @ b) = Some v \<and> btoi v = Some 0" and "x = 1"
    and "boxes s' = (boxes s)(''batch:'' @ b \<mapsto> itob 1)"
    and "logs s' = logs s @ [(''approve_batch'', ''approve_batch|'' @ hex b @ ''|'' @ hex (sender tx))]"
  using assms
  by (auto simp: approve_batch_v2_def box_put_def box_get_def emit_def Let_def
      split: if_splits option.splits)

lemma certify_batch_Inr:
  assumes "certify_batch creator tx b s = Inr (x, s')"
  shows "sender tx = creator \<or>
           (\<exists>rv. boxes s (''role:'' @ sender tx) = Some rv \<and> btoi rv = Some 2)"
    and "\<exists>v. boxes s (''batch:'' @ b) = Some v \<and> btoi v = Some 1" and "x = 2"
    and "\<exists>a. asset_created tx = Some a \<and>
           boxes s' = (boxes s)(''batch:'' @ b \<mapsto> itob 2, ''asset:'' @ b \<mapsto> itob a)"
    and "logs s' = logs s @ [(''certify_batch'', ''certify_batch|'' @ hex b @ ''|'' @ hex (sender tx))]"
  using assms
  by (auto simp: certify_batch_def box_put_def box_get_def emit_def Let_def
      split: if_splits option.splits)

lemma read_only_Inr:
  "get_batch_status_v2 b s = Inr (x, s') \<Longrightarrow> s' = s"
  "get_batch_asset b s = Inr (x, s') \<Longrightarrow> s' = s"
  "get_vendor_batches v s = Inr (y, s') \<Longrightarrow> s' = s"
  "get_role creator a s = Inr (x, s') \<Longrightarrow> s' = s"
  "create_batch n s = Inr (x, s') \<Longrightarrow> s' = s"
  "approve_batch n s = Inr (x, s') \<Longrightarrow> s' = s"
  "get_batch_status n s = Inr (x, s') \<Longrightarrow> s' = s"
  by (auto simp: get_batch_status_v2_def get_batch_asset_def get_vendor_batches_def
      get_role_def create_batch_def approve_batch_def get_batch_status_def box_get_def Let_def
      split: if_splits option.splits)

text \<open>How one application call changes the boxes.\<close>

lemma app_call_boxes:
  "boxes (snd (app_call creator tx c s)) = boxes s \<or>
   (\<exists>a r. c = AssignRole a r \<and> (r = 1 \<or> r = 2) \<and> sender tx = creator \<and>
      boxes (snd (app_call creator tx c s)) = (boxes s)(''role:'' @ a \<mapsto> itob r)) \<or>
   (\<exists>b. c = CreateBatchV2 b \<and> boxes s (''batch:'' @ b) = None \<and>
      boxes (snd (app_call creator tx c s)) = (boxes s)(''batch:'' @ b \<mapsto> itob 0,
           ''vendor:'' @ sender tx \<mapsto>
             (case boxes s (''vendor:'' @ sender tx) of
                Some existing \<Rightarrow> existing @ ''|'' @ b | None \<Rightarrow> b))) \<or>
   (\<exists>b v. c = ApproveBatchV2 b \<and> boxes s (''batch:'' @ b) = Some v \<and> btoi v = Some 0 \<and>
      boxes (snd (app_call creator tx c s)) = (boxes s)(''batch:'' @ b \<mapsto> itob 1)) \<or>
   (\<exists>b v a. c = CertifyBatch b \<and> boxes s (''batch:'' @ b) = Some v \<and> btoi v = Some 1 \<and>
      asset_created tx = Some a \<and>
      boxes (snd (app_call creator tx c s)) =
        (boxes s)(''batch:'' @ b \<mapsto> itob 2, ''asset:'' @ b \<mapsto> itob a))"
  (is "?same \<or> ?assign \<or> ?create \<or> ?approve \<or> ?certify")
proof (cases "method_body creator tx c s")
  case (Inl p)
  then have ?same by (simp add: app_call_def split: prod.splits)
  then show ?thesis ..
next
  case (Inr p)
  obtain r s' where p: "p = (r, s')" by (cases p)
  have s': "snd (app_call creator tx c s) = s'"
    using Inr p by (simp add: app_call_def)
  show ?thesis
  proof (cases c)
    case (AssignRole a ro)
    then obtain x where "assign_role creator tx a ro s = Inr (x, s')"
      using Inr p by (cases "assign_role creator tx a ro s") (auto simp: ret_u64_def)
    from assign_role_Inr(1,2,4)[OF this] have ?assign using s' AssignRole by simp
    then show ?thesis by blast
  next
    case (CreateBatchV2 b)
    then obtain x where "create_batch_v2 tx b s = Inr (x, s')"
      using Inr p by (cases "create_batch_v2 tx b s") (auto simp: ret_u64_def)
    from create_batch_v2_Inr(2,4)[OF this] have ?create using s' CreateBatchV2 by simp
    then show ?thesis by blast
  next
    case (ApproveBatchV2 b)
    then obtain x where "approve_batch_v2 tx b s = Inr (x, s')"
      using Inr p by (cases "approve_batch_v2 tx b s") (auto simp: ret_u64_def)
    from approve_batch_v2_Inr(2,4)[OF this] have ?approve using s' ApproveBatchV2 by simp
    then show ?thesis by blast
  next
    case (CertifyBatch b)
    then obtain x where "certify_batch creator tx b s = Inr (x, s')"
      using Inr p by (cases "certify_batch creator tx b s") (auto simp: ret_u64_def)
    from certify_batch_Inr(2,4)[OF this] have ?certify using s' CertifyBatch by auto
    then show ?thesis by blast
  next
    case (CreateBatch n)
    then have "s' = s" using Inr p by (auto simp: ret_u64_def create_batch_def)
    then have ?same unfolding s' by simp
    then show ?thesis ..
  next
    case (ApproveBatch n)
    then have "s' = s" using Inr p by (auto simp: ret_u64_def approve_batch_def)
    then have ?same unfolding s' by simp
    then show ?thesis ..
  next
    case (GetBatchStatus n)
    then have "s' = s" using Inr p by (auto simp: ret_u64_def get_batch_status_def)
    then have ?same unfolding s' by simp
    then show ?thesis ..
  next
    case (GetBatchStatusV2 b)
    then have "s' = s" using Inr p
      by (cases "get_batch_status_v2 b s") (auto simp: ret_u64_def dest: read_only_Inr)
    then have ?same unfolding s' by simp
    then show ?thesis ..
  next
    case (GetBatchAsset b)
    then have "s' = s" using Inr p
      by (cases "get_batch_asset b s") (auto simp: ret_u64_def dest: read_only_Inr)
    then have ?same unfolding s' by simp
    then show ?thesis ..
  next
    case (GetVendorBatches b)
    then have "s' = s" using Inr p
      by (cases "get_vendor_batches b s") (auto simp: ret_str_def dest: read_only_Inr)
    then have ?same unfolding s' by simp
    then show ?thesis ..
  next
    case (GetRole b)
    then have "s' = s" using Inr p
      by (cases "get_role creator b s") (auto simp: ret_u64_def dest: read_only_Inr)
    then have ?same unfolding s' by simp
    then show ?thesis ..
  qed
qed


lemma step_role_box:
  "boxes (snd (app_call creator tx c s)) (''role:'' @ a) = boxes s (''role:'' @ a) \<or>
   (\<exists>r. c = AssignRole a r \<and> (r = 1 \<or> r = 2) \<and> sender tx = creator \<and>
      boxes (snd (app_call creator tx c s)) (''role:'' @ a) = Some (itob r))"
  using app_call_boxes [of creator tx c s]
  by (elim disjE exE conjE) simp_all

lemma step_batch_box:
  "boxes (snd (app_call creator tx c s)) (''batch:'' @ b) = boxes s (''batch:'' @ b) \<or>
   (c = CreateBatchV2 b \<and> boxes s (''batch:'' @ b) = None \<and>
      boxes (snd (app_call creator tx c s)) (''batch:'' @ b) = Some (itob 0)) \<or>
   (c = ApproveBatchV2 b \<and> (\<exists>v. boxes s (''batch:'' @ b) = Some v \<and> btoi v = Some 0) \<and>
      boxes (snd (app_call creator tx c s)) (''batch:'' @ b) = Some (itob 1)) \<or>
   (c = CertifyBatch b \<and> (\<exists>v. boxes s (''batch:'' @ b) = Some v \<and> btoi v = Some 1) \<and>
      boxes (snd (app_call creator tx c s)) (''batch:'' @ b) = Some (itob 2))"
  using app_call_boxes [of creator tx c s]
  by (elim disjE exE conjE) simp_all

lemma step_asset_box:
  "boxes (snd (app_call creator tx c s)) (''asset:'' @ b) = boxes s (''asset:'' @ b) \<or>
   (c = CertifyBatch b \<and> (\<exists>v. boxes s (''batch:'' @ b) = Some v \<and> btoi v = Some 1) \<and>
      boxes (snd (app_call creator tx c s)) (''batch:'' @ b) = Some (itob 2) \<and>
      (\<exists>a. asset_created tx = Some a \<and>
         boxes (snd (app_call creator tx c s)) (''asset:'' @ b) = Some (itob a)))"
  using app_call_boxes [of creator tx c s]
  by (elim disjE exE conjE) simp_all

lemma step_vendor_box:
  "boxes (snd (app_call creator tx c s)) (''vendor:'' @ v) = boxes s (''vendor:'' @ v) \<or>
   (\<exists>b. c = CreateBatchV2 b \<and> sender tx = v \<and> boxes s (''batch:'' @ b) = None \<and>
      boxes (snd (app_call creator tx c s)) (''vendor:'' @ v) =
        Some (case boxes s (''vendor:'' @ v) of
                Some existing \<Rightarrow> existing @ ''|'' @ b | None \<Rightarrow> b))"
  using app_call_boxes [of creator tx c s]
  by (elim disjE exE conjE) simp_all

subsection \<open>The stored values stay well formed\<close>

lemma store_ok_init: "store_ok init_state"
  by (simp add: store_ok_def init_state_def)

lemma store_ok_role: "store_ok s \<Longrightarrow> boxes s (''role:'' @ a) = Some v \<Longrightarrow> v = itob 1 \<or> v = itob 2"
  unfolding store_ok_def by blast

lemma store_ok_batch:
  "store_ok s \<Longrightarrow> boxes s (''batch:'' @ b) = Some v \<Longrightarrow> v = itob 0 \<or> v = itob 1 \<or> v = itob 2"
  unfolding store_ok_def by blast

lemma store_ok_asset:
  "store_ok s \<Longrightarrow> boxes s (''asset:'' @ b) = Some v \<Longrightarrow>
     length v = 8 \<and> boxes s (''batch:'' @ b) = Some (itob 2)"
  unfolding store_ok_def by blast

lemma store_ok_step:
  assumes ok: "store_ok s"
  shows "store_ok (snd (app_call creator tx c s))"
proof -
  let ?s' = "snd (app_call creator tx c s)"
  have R: "v = itob 1 \<or> v = itob 2" if h: "boxes ?s' (''role:'' @ a) = Some v" for a v
    using step_role_box [of creator tx c s a] h store_ok_role [OF ok, of a v] by auto
  have B: "v = itob 0 \<or> v = itob 1 \<or> v = itob 2"
    if h: "boxes ?s' (''batch:'' @ b) = Some v" for b v
    using step_batch_box [of creator tx c s b] h store_ok_batch [OF ok, of b v] by auto
  have A: "length v = 8 \<and> boxes ?s' (''batch:'' @ b) = Some (itob 2)"
    if h: "boxes ?s' (''asset:'' @ b) = Some v" for b v
  proof -
    from step_asset_box [of creator tx c s b] consider
        (same) "boxes s (''asset:'' @ b) = Some v"
      | (certify) a where "boxes ?s' (''batch:'' @ b) = Some (itob 2)"
          "boxes ?s' (''asset:'' @ b) = Some (itob a)"
      using h by auto
    then show ?thesis
    proof cases
      case same
      from store_ok_asset [OF ok same] have l: "length v = 8"
        and b2: "boxes s (''batch:'' @ b) = Some (itob 2)" by simp_all
      from step_batch_box [of creator tx c s b] b2
      have "boxes ?s' (''batch:'' @ b) = Some (itob 2)"
        by (auto simp: btoi_itob_consts)
      with l show ?thesis by simp
    next
      case certify
      with h show ?thesis by (simp add: length_itob)
    qed
  qed
  show ?thesis unfolding store_ok_def using R B A by blast
qed

lemma store_ok_run: "store_ok s \<Longrightarrow> store_ok (run creator tr s)"
  by (induction tr arbitrary: s) (auto simp: store_ok_step)

lemma store_ok_reachable: "store_ok (run creator tr init_state)"
  by (rule store_ok_run [OF store_ok_init])

lemma app_call_Inl_same: "fst (app_call creator tx c s) = Inl e \<Longrightarrow> snd (app_call creator tx c s) = s"
  by (auto simp: app_call_def split: sum.splits prod.splits)

lemma app_call_Inr:
  "fst (app_call creator tx c s) = Inr r \<Longrightarrow>
     method_body creator tx c s = Inr (r, snd (app_call creator tx c s))"
  by (auto simp: app_call_def split: sum.splits prod.splits)

lemma ret_u64_Inr: "ret_u64 m = Inr (r, s') \<Longrightarrow> \<exists>x. m = Inr (x, s') \<and> r = U64 x"
  by (cases m) (auto simp: ret_u64_def)

lemma btoi_of_stored:
  "v = itob 0 \<or> v = itob 1 \<or> v = itob 2 \<Longrightarrow> btoi v = Some 0 \<Longrightarrow> v = itob 0"
  "v = itob 0 \<or> v = itob 1 \<or> v = itob 2 \<Longrightarrow> btoi v = Some 1 \<Longrightarrow> v = itob 1"
  "v = itob 0 \<or> v = itob 1 \<or> v = itob 2 \<Longrightarrow> btoi v = Some 2 \<Longrightarrow> v = itob 2"
  by (auto simp: btoi_itob_consts)

lemmas eval_defs = app_call_def ret_u64_def ret_str_def assign_role_def create_batch_v2_def
  approve_batch_v2_def certify_batch_def get_batch_status_v2_def get_batch_asset_def
  get_vendor_batches_def get_role_def create_batch_def approve_batch_def get_batch_status_def
  box_get_def box_put_def emit_def init_state_def Let_def btoi_itob_consts itob_consts_distinct

subsection \<open>The batch state machine\<close>

text \<open>
  C1. In every state \<open>s\<close> reached from deployment and for every application call from
  it: a batch box that does not exist is created only by a successful
  \<^verbatim>\<open>create_batch_v2\<close> for that batch, with state 0; a batch box that exists holds 0, 1 or
  2 and after the call holds the same value, or has moved from 0 to 1 by
  \<^verbatim>\<open>approve_batch_v2\<close>, or from 1 to 2 by \<^verbatim>\<open>certify_batch\<close> (so it is never
  deleted, reset or moved past a state); \<^verbatim>\<open>create_batch_v2\<close> succeeds only when the
  box does not exist, \<^verbatim>\<open>approve_batch_v2\<close> only when the stored state is 0, and
  \<^verbatim>\<open>certify_batch\<close> only when it is 1.
\<close>

theorem batch_state_monotonic:
  "let s = run creator tr init_state;
       s' = snd (app_call creator tx c s)
   in (boxes s (''batch:'' @ b) = None \<longrightarrow>
         boxes s' (''batch:'' @ b) = None \<or>
         (c = CreateBatchV2 b \<and> fst (app_call creator tx c s) = Inr (U64 0) \<and>
          boxes s' (''batch:'' @ b) = Some (itob 0))) \<and>
      (\<forall>v. boxes s (''batch:'' @ b) = Some v \<longrightarrow>
         (v = itob 0 \<or> v = itob 1 \<or> v = itob 2) \<and>
         (boxes s' (''batch:'' @ b) = Some v \<or>
          (v = itob 0 \<and> c = ApproveBatchV2 b \<and> boxes s' (''batch:'' @ b) = Some (itob 1)) \<or>
          (v = itob 1 \<and> c = CertifyBatch b \<and> boxes s' (''batch:'' @ b) = Some (itob 2)))) \<and>
      (\<forall>r. fst (app_call creator tx (CreateBatchV2 b) s) = Inr r \<longrightarrow>
         boxes s (''batch:'' @ b) = None) \<and>
      (\<forall>r. fst (app_call creator tx (ApproveBatchV2 b) s) = Inr r \<longrightarrow>
         boxes s (''batch:'' @ b) = Some (itob 0)) \<and>
      (\<forall>r. fst (app_call creator tx (CertifyBatch b) s) = Inr r \<longrightarrow>
         boxes s (''batch:'' @ b) = Some (itob 1))"
proof -
  define s where "s = run creator tr init_state"
  define s' where "s' = snd (app_call creator tx c s)"
  have ok: "store_ok s" unfolding s_def by (rule store_ok_reachable)
  note step = step_batch_box [of creator tx c s b, folded s'_def]
  have absent: "boxes s' (''batch:'' @ b) = None \<or>
         (c = CreateBatchV2 b \<and> fst (app_call creator tx c s) = Inr (U64 0) \<and>
          boxes s' (''batch:'' @ b) = Some (itob 0))"
    if none: "boxes s (''batch:'' @ b) = None"
  proof (cases "boxes s' (''batch:'' @ b)")
    case None
    then show ?thesis by simp
  next
    case (Some w)
    with step none have c: "c = CreateBatchV2 b" and w: "boxes s' (''batch:'' @ b) = Some (itob 0)"
      by auto
    have "\<not> (\<exists>e. fst (app_call creator tx c s) = Inl e)"
      using app_call_Inl_same [of creator tx c s] none Some by (auto simp: s'_def)
    then obtain r where r: "fst (app_call creator tx c s) = Inr r"
      by (cases "fst (app_call creator tx c s)") auto
    from app_call_Inr [OF r] c obtain x where "create_batch_v2 tx b s = Inr (x, s')" "r = U64 x"
      by (auto simp: s'_def dest: ret_u64_Inr)
    with create_batch_v2_Inr(3) [of tx b s x s'] have "r = U64 0" by simp
    with r c w show ?thesis by simp
  qed
  have present: "(v = itob 0 \<or> v = itob 1 \<or> v = itob 2) \<and>
         (boxes s' (''batch:'' @ b) = Some v \<or>
          (v = itob 0 \<and> c = ApproveBatchV2 b \<and> boxes s' (''batch:'' @ b) = Some (itob 1)) \<or>
          (v = itob 1 \<and> c = CertifyBatch b \<and> boxes s' (''batch:'' @ b) = Some (itob 2)))"
    if some: "boxes s (''batch:'' @ b) = Some v" for v
  proof -
    have v: "v = itob 0 \<or> v = itob 1 \<or> v = itob 2" by (rule store_ok_batch [OF ok some])
    from step some btoi_of_stored(1,2) [OF v] have
      "boxes s' (''batch:'' @ b) = Some v \<or>
          (v = itob 0 \<and> c = ApproveBatchV2 b \<and> boxes s' (''batch:'' @ b) = Some (itob 1)) \<or>
          (v = itob 1 \<and> c = CertifyBatch b \<and> boxes s' (''batch:'' @ b) = Some (itob 2))"
      by auto
    with v show ?thesis by simp
  qed
  have create: "boxes s (''batch:'' @ b) = None"
    if r: "fst (app_call creator tx (CreateBatchV2 b) s) = Inr r" for r
  proof -
    from app_call_Inr [OF r] obtain x s2 where "create_batch_v2 tx b s = Inr (x, s2)"
      by (auto dest: ret_u64_Inr)
    then show ?thesis by (rule create_batch_v2_Inr(2))
  qed
  have approve: "boxes s (''batch:'' @ b) = Some (itob 0)"
    if r: "fst (app_call creator tx (ApproveBatchV2 b) s) = Inr r" for r
  proof -
    from app_call_Inr [OF r] obtain x s2 where "approve_batch_v2 tx b s = Inr (x, s2)"
      by (auto dest: ret_u64_Inr)
    from approve_batch_v2_Inr(2) [OF this] obtain v
      where v: "boxes s (''batch:'' @ b) = Some v" "btoi v = Some 0" by blast
    from btoi_of_stored(1) [OF store_ok_batch [OF ok v(1)] v(2)] v(1) show ?thesis by simp
  qed
  have certify: "boxes s (''batch:'' @ b) = Some (itob 1)"
    if r: "fst (app_call creator tx (CertifyBatch b) s) = Inr r" for r
  proof -
    from app_call_Inr [OF r] obtain x s2 where "certify_batch creator tx b s = Inr (x, s2)"
      by (auto dest: ret_u64_Inr)
    from certify_batch_Inr(2) [OF this] obtain v
      where v: "boxes s (''batch:'' @ b) = Some v" "btoi v = Some 1" by blast
    from btoi_of_stored(2) [OF store_ok_batch [OF ok v(1)] v(2)] v(1) show ?thesis by simp
  qed
  show ?thesis
    unfolding Let_def s_def [symmetric] s'_def [symmetric]
    using absent present create approve certify by blast
qed

theorem batch_state_monotonic_witness:
  "boxes (run ''ADMIN''
       [(\<lparr>sender = ''ADMIN'', asset_created = None\<rparr>, AssignRole ''V1'' 1),
        (\<lparr>sender = ''ADMIN'', asset_created = None\<rparr>, AssignRole ''I1'' 2),
        (\<lparr>sender = ''V1'', asset_created = None\<rparr>, CreateBatchV2 ''B-100'')] init_state)
     (''batch:'' @ ''B-100'') = Some (itob 0) \<and>
   boxes (snd (app_call ''ADMIN'' \<lparr>sender = ''I1'', asset_created = None\<rparr> (ApproveBatchV2 ''B-100'')
     (run ''ADMIN''
       [(\<lparr>sender = ''ADMIN'', asset_created = None\<rparr>, AssignRole ''V1'' 1),
        (\<lparr>sender = ''ADMIN'', asset_created = None\<rparr>, AssignRole ''I1'' 2),
        (\<lparr>sender = ''V1'', asset_created = None\<rparr>, CreateBatchV2 ''B-100'')] init_state)))
     (''batch:'' @ ''B-100'') = Some (itob 1)"
  using batch_state_monotonic [of "''ADMIN''"
       "[(\<lparr>sender = ''ADMIN'', asset_created = None\<rparr>, AssignRole ''V1'' 1),
        (\<lparr>sender = ''ADMIN'', asset_created = None\<rparr>, AssignRole ''I1'' 2),
        (\<lparr>sender = ''V1'', asset_created = None\<rparr>, CreateBatchV2 ''B-100'')]"
       "\<lparr>sender = ''I1'', asset_created = None\<rparr>" "ApproveBatchV2 ''B-100''" "''B-100''"]
  by (simp add: eval_defs)

subsection \<open>The original methods\<close>

text \<open>
  C10. The methods \<^verbatim>\<open>create_batch\<close>, \<^verbatim>\<open>approve_batch\<close> and \<^verbatim>\<open>get_batch_status\<close>
  that take a \<^verbatim>\<open>UInt64\<close> identifier check no role, read and write no box and log no
  event: for every sender, every argument and every state, the call succeeds with the
  constant 0, 1 and 1 respectively and leaves the state as it was, and the method body
  itself never leaves the state it started from. In particular \<^verbatim>\<open>get_batch_status\<close>
  answers 1 in the freshly deployed state, where no batch was ever created.
\<close>

theorem legacy_methods_constant:
  "app_call creator tx (CreateBatch n) s = (Inr (U64 0), s) \<and>
   app_call creator tx (ApproveBatch n) s = (Inr (U64 1), s) \<and>
   app_call creator tx (GetBatchStatus n) s = (Inr (U64 1), s) \<and>
   method_body creator tx (CreateBatch n) s = Inr (U64 0, s) \<and>
   method_body creator tx (ApproveBatch n) s = Inr (U64 1, s) \<and>
   method_body creator tx (GetBatchStatus n) s = Inr (U64 1, s) \<and>
   app_call creator tx (GetBatchStatus n) init_state = (Inr (U64 1), init_state)"
  by (simp add: app_call_def ret_u64_def create_batch_def approve_batch_def
      get_batch_status_def)

theorem legacy_methods_constant_witness:
  "app_call ''ADMIN'' \<lparr>sender = ''NOBODY'', asset_created = None\<rparr> (GetBatchStatus 7)
     init_state = (Inr (U64 1), init_state)"
  using legacy_methods_constant [of "''ADMIN''" "\<lparr>sender = ''NOBODY'', asset_created = None\<rparr>" 7
      init_state]
  by simp

subsection \<open>The certification token\<close>

lemma asset_box_stable_step:
  assumes ok: "store_ok s" and a: "boxes s (''asset:'' @ b) = Some v"
  shows "boxes (snd (app_call creator tx c s)) (''asset:'' @ b) = Some v"
proof -
  from store_ok_asset [OF ok a] have "boxes s (''batch:'' @ b) = Some (itob 2)" by simp
  with step_asset_box [of creator tx c s b] a show ?thesis
    by (auto simp: btoi_itob_consts)
qed

lemma asset_box_stable_run:
  "store_ok s \<Longrightarrow> boxes s (''asset:'' @ b) = Some v \<Longrightarrow>
     boxes (run creator tr s) (''asset:'' @ b) = Some v"
proof (induction tr arbitrary: s)
  case Nil
  then show ?case by simp
next
  case (Cons x tr)
  obtain tx c where x: "x = (tx, c)" by (cases x)
  have ok': "store_ok (snd (app_call creator tx c s))"
    using Cons.prems(1) by (rule store_ok_step)
  have "boxes (snd (app_call creator tx c s)) (''asset:'' @ b) = Some v"
    using Cons.prems by (rule asset_box_stable_step)
  from Cons.IH [OF ok' this] show ?case unfolding x by simp
qed

text \<open>
  C3. In every state \<open>s\<close> reached from deployment and for every application call from
  it: an asset box that exists belongs to a batch in state 2, keeps its value through the
  call and through every later run (it is never written again); an asset box that does
  not exist is created only by a successful \<^verbatim>\<open>certify_batch\<close> for that batch, the
  call that moves the batch from state 1 to state 2, and then holds the identifier of the
  asset that call created; and every successful \<^verbatim>\<open>certify_batch\<close> finds the asset box
  absent and writes it. So each batch has at most one token identifier, written once.
\<close>

theorem certification_unique:
  "let s = run creator tr init_state;
       s' = snd (app_call creator tx c s)
   in (\<forall>v. boxes s (''asset:'' @ b) = Some v \<longrightarrow>
         boxes s (''batch:'' @ b) = Some (itob 2) \<and>
         boxes s' (''asset:'' @ b) = Some v \<and>
         (\<forall>tr'. boxes (run creator tr' s) (''asset:'' @ b) = Some v)) \<and>
      (boxes s (''asset:'' @ b) = None \<longrightarrow>
         boxes s' (''asset:'' @ b) = None \<or>
         (c = CertifyBatch b \<and> fst (app_call creator tx c s) = Inr (U64 2) \<and>
          boxes s (''batch:'' @ b) = Some (itob 1) \<and>
          boxes s' (''batch:'' @ b) = Some (itob 2) \<and>
          (\<exists>a. asset_created tx = Some a \<and> boxes s' (''asset:'' @ b) = Some (itob a)))) \<and>
      (\<forall>r. fst (app_call creator tx (CertifyBatch b) s) = Inr r \<longrightarrow>
         boxes s (''asset:'' @ b) = None \<and>
         (\<exists>a. asset_created tx = Some a \<and>
            boxes (snd (app_call creator tx (CertifyBatch b) s)) (''asset:'' @ b)
              = Some (itob a)))"
proof -
  define s where "s = run creator tr init_state"
  define s' where "s' = snd (app_call creator tx c s)"
  have ok: "store_ok s" unfolding s_def by (rule store_ok_reachable)
  have present: "boxes s (''batch:'' @ b) = Some (itob 2) \<and>
         boxes s' (''asset:'' @ b) = Some v \<and>
         (\<forall>tr'. boxes (run creator tr' s) (''asset:'' @ b) = Some v)"
    if a: "boxes s (''asset:'' @ b) = Some v" for v
    using store_ok_asset [OF ok a] asset_box_stable_step [OF ok a, of creator tx c]
      asset_box_stable_run [OF ok a, of creator]
    by (simp add: s'_def)
  have absent: "boxes s' (''asset:'' @ b) = None \<or>
         (c = CertifyBatch b \<and> fst (app_call creator tx c s) = Inr (U64 2) \<and>
          boxes s (''batch:'' @ b) = Some (itob 1) \<and>
          boxes s' (''batch:'' @ b) = Some (itob 2) \<and>
          (\<exists>a. asset_created tx = Some a \<and> boxes s' (''asset:'' @ b) = Some (itob a)))"
    if none: "boxes s (''asset:'' @ b) = None"
  proof (cases "boxes s' (''asset:'' @ b)")
    case None
    then show ?thesis by simp
  next
    case (Some w)
    with step_asset_box [of creator tx c s b, folded s'_def] none
    obtain v a where c: "c = CertifyBatch b"
      and v: "boxes s (''batch:'' @ b) = Some v" "btoi v = Some 1"
      and b2: "boxes s' (''batch:'' @ b) = Some (itob 2)"
      and a: "asset_created tx = Some a" "boxes s' (''asset:'' @ b) = Some (itob a)"
      by auto
    have v1: "boxes s (''batch:'' @ b) = Some (itob 1)"
      using btoi_of_stored(2) [OF store_ok_batch [OF ok v(1)] v(2)] v(1) by simp
    have "\<not> (\<exists>e. fst (app_call creator tx c s) = Inl e)"
      using app_call_Inl_same [of creator tx c s] none Some by (auto simp: s'_def)
    then obtain r where r: "fst (app_call creator tx c s) = Inr r"
      by (cases "fst (app_call creator tx c s)") auto
    from app_call_Inr [OF r] c obtain x where "certify_batch creator tx b s = Inr (x, s')" "r = U64 x"
      by (auto simp: s'_def dest: ret_u64_Inr)
    with certify_batch_Inr(3) [of creator tx b s x s'] have "r = U64 2" by simp
    with r c v1 b2 a show ?thesis by simp
  qed
  have certify: "boxes s (''asset:'' @ b) = None \<and>
         (\<exists>a. asset_created tx = Some a \<and>
            boxes (snd (app_call creator tx (CertifyBatch b) s)) (''asset:'' @ b)
              = Some (itob a))"
    if r: "fst (app_call creator tx (CertifyBatch b) s) = Inr r" for r
  proof -
    from app_call_Inr [OF r] obtain x
      where m: "certify_batch creator tx b s
                  = Inr (x, snd (app_call creator tx (CertifyBatch b) s))"
      by (auto dest: ret_u64_Inr)
    from certify_batch_Inr(2) [OF m] obtain v
      where v: "boxes s (''batch:'' @ b) = Some v" "btoi v = Some 1" by blast
    have "boxes s (''asset:'' @ b) = None"
    proof (cases "boxes s (''asset:'' @ b)")
      case (Some w)
      from store_ok_asset [OF ok Some] v show ?thesis by (auto simp: btoi_itob_consts)
    qed simp
    moreover from certify_batch_Inr(4) [OF m]
    have "\<exists>a. asset_created tx = Some a \<and>
            boxes (snd (app_call creator tx (CertifyBatch b) s)) (''asset:'' @ b)
              = Some (itob a)"
      by auto
    ultimately show ?thesis by simp
  qed
  show ?thesis
    unfolding Let_def s_def [symmetric] s'_def [symmetric]
    using absent present certify by blast
qed

theorem certification_unique_witness:
  "boxes (run ''ADMIN''
       [(\<lparr>sender = ''ADMIN'', asset_created = None\<rparr>, AssignRole ''V1'' 1),
        (\<lparr>sender = ''ADMIN'', asset_created = None\<rparr>, AssignRole ''I1'' 2),
        (\<lparr>sender = ''V1'', asset_created = None\<rparr>, CreateBatchV2 ''B-100''),
        (\<lparr>sender = ''I1'', asset_created = None\<rparr>, ApproveBatchV2 ''B-100'')] init_state)
     (''asset:'' @ ''B-100'') = None \<and>
   boxes (snd (app_call ''ADMIN'' \<lparr>sender = ''I1'', asset_created = Some 1001\<rparr>
     (CertifyBatch ''B-100'')
     (run ''ADMIN''
       [(\<lparr>sender = ''ADMIN'', asset_created = None\<rparr>, AssignRole ''V1'' 1),
        (\<lparr>sender = ''ADMIN'', asset_created = None\<rparr>, AssignRole ''I1'' 2),
        (\<lparr>sender = ''V1'', asset_created = None\<rparr>, CreateBatchV2 ''B-100''),
        (\<lparr>sender = ''I1'', asset_created = None\<rparr>, ApproveBatchV2 ''B-100'')] init_state)))
     (''asset:'' @ ''B-100'') = Some (itob 1001)"
  using certification_unique [of "''ADMIN''"
       "[(\<lparr>sender = ''ADMIN'', asset_created = None\<rparr>, AssignRole ''V1'' 1),
        (\<lparr>sender = ''ADMIN'', asset_created = None\<rparr>, AssignRole ''I1'' 2),
        (\<lparr>sender = ''V1'', asset_created = None\<rparr>, CreateBatchV2 ''B-100''),
        (\<lparr>sender = ''I1'', asset_created = None\<rparr>, ApproveBatchV2 ''B-100'')]"
       "\<lparr>sender = ''I1'', asset_created = Some 1001\<rparr>" "CertifyBatch ''B-100''" "''B-100''"]
  by (simp add: eval_defs)

end
